theory Spec2Isabelle
  imports Main "HOL-Library.Word"
begin

section \<open>Data model of the SDL binding (src/sdl/sdl.go)\<close>

text \<open>
  Foreign (C) pointers and Go's \<open>unsafe.Pointer\<close> are 64-bit addresses; the null
  pointer is \<open>0\<close>.  Go's \<open>int\<close> is a 64-bit word, C's \<open>int\<close> a 32-bit word.
\<close>

type_synonym addr = "64 word"

text \<open>The C struct \<open>SDL_Rect\<close> (Sint16 x, y; Uint16 w, h) and Go's \<open>Rect\<close>.\<close>

record SDL_Rect =
  rect_x :: "16 word"
  rect_y :: "16 word"
  rect_w :: "16 word"
  rect_h :: "16 word"

record Rect =
  X :: "16 word"
  Y :: "16 word"
  W :: "16 word"
  H :: "16 word"

text \<open>The fields of the C struct \<open>SDL_Surface\<close> that the binding reads.\<close>

record SDL_Surface =
  c_flags :: "32 word"
  c_format :: addr
  c_w :: "32 word"
  c_h :: "32 word"
  c_pitch :: "16 word"
  c_pixels :: addr
  c_offset :: "32 word"

text \<open>\<open>reflect.Kind\<close>, in the order of Go's reflect package.\<close>

datatype Kind =
  Invalid | Bool | Int_kind | Int8 | Int16 | Int32 | Int64
  | Uint | Uint8 | Uint16 | Uint32 | Uint64 | Uintptr
  | Float32 | Float64 | Complex64 | Complex128
  | Array | Chan | Func | Interface | Map | Ptr | Slice | String | Struct
  | UnsafePointer

fun Kind_String :: "Kind \<Rightarrow> string" where
  "Kind_String Invalid = ''invalid''"
| "Kind_String Bool = ''bool''"
| "Kind_String Int_kind = ''int''"
| "Kind_String Int8 = ''int8''"
| "Kind_String Int16 = ''int16''"
| "Kind_String Int32 = ''int32''"
| "Kind_String Int64 = ''int64''"
| "Kind_String Uint = ''uint''"
| "Kind_String Uint8 = ''uint8''"
| "Kind_String Uint16 = ''uint16''"
| "Kind_String Uint32 = ''uint32''"
| "Kind_String Uint64 = ''uint64''"
| "Kind_String Uintptr = ''uintptr''"
| "Kind_String Float32 = ''float32''"
| "Kind_String Float64 = ''float64''"
| "Kind_String Complex64 = ''complex64''"
| "Kind_String Complex128 = ''complex128''"
| "Kind_String Array = ''array''"
| "Kind_String Chan = ''chan''"
| "Kind_String Func = ''func''"
| "Kind_String Interface = ''interface''"
| "Kind_String Map = ''map''"
| "Kind_String Ptr = ''ptr''"
| "Kind_String Slice = ''slice''"
| "Kind_String String = ''string''"
| "Kind_String Struct = ''struct''"
| "Kind_String UnsafePointer = ''unsafe.Pointer''"

text \<open>
  A non-nil \<open>interface{}\<close> value as \<open>reflect.ValueOf\<close> sees it: its kind and, for
  the pointer-like kinds, what \<open>Value.Pointer()\<close> returns.  The nil interface is
  \<open>None\<close>; its kind is \<open>Invalid\<close>.
\<close>

record go_value =
  kind :: Kind
  pointer :: addr

type_synonym interface = "go_value option"

definition Kind_of :: "interface \<Rightarrow> Kind" where
  "Kind_of v = (case v of None \<Rightarrow> Invalid | Some x \<Rightarrow> kind x)"

definition Pointer_of :: "interface \<Rightarrow> addr" where
  "Pointer_of v = (case v of None \<Rightarrow> 0 | Some x \<Rightarrow> pointer x)"

text \<open>
  \<open>sync.RWMutex\<close>, as one thread sees it: the number of shared holders and whether
  it is held exclusively.
\<close>

record RWMutex =
  readers :: nat
  writer :: bool

text \<open>The Go struct \<open>Surface\<close>.\<close>

record Surface =
  cSurface :: addr
  mutex :: RWMutex
  Flags :: "32 word"
  Format :: addr
  W :: "32 word"
  H :: "32 word"
  Pitch :: "16 word"
  Pixels :: addr
  Offset :: "32 word"
  gcPixels :: interface

text \<open>The zero value that \<open>var surface Surface\<close> allocates.\<close>

definition zero_Surface :: Surface where
  "zero_Surface = \<lparr>cSurface = 0, mutex = \<lparr>readers = 0, writer = False\<rparr>,
     Flags = 0, Format = 0, Surface.W = 0, Surface.H = 0, Pitch = 0, Pixels = 0,
     Offset = 0, gcPixels = None\<rparr>"

text \<open>
  A \<open>*Surface\<close> is \<open>None\<close> (nil) or a reference into the Go heap.  The observable
  events of a call are lock acquisitions and releases and the native calls, each with
  the foreign surface pointers it is given.
\<close>

type_synonym ref = "nat option"

datatype lock = Global | Shared nat | Exclusive nat

datatype event = Acquired lock | Released lock | Native string "addr list"

record world =
  heap :: "nat \<Rightarrow> Surface"
  allocated :: nat
  currentVideoSurface :: ref
  GlobalMutex :: bool
  foreign :: "addr \<Rightarrow> SDL_Surface"
  trace :: "event list"

text \<open>
  A call returns a value, or stops: with a nil-pointer panic, with an explicit panic
  message, or blocked on a lock that no one will release.
\<close>

datatype fault = NilDereference | Panic string | Blocked

datatype 'a outcome = Return 'a | Fault fault

type_synonym 'a prog = "world \<Rightarrow> 'a outcome \<times> world"

definition bind_prog :: "'a prog \<Rightarrow> ('a \<Rightarrow> 'b prog) \<Rightarrow> 'b prog" where
  "bind_prog m k w =
     (case m w of
        (Return x, w') \<Rightarrow> k x w'
      | (Fault f, w') \<Rightarrow> (Fault f, w'))"

definition return_prog :: "'a \<Rightarrow> 'a prog" where
  "return_prog x w = (Return x, w)"

definition log_event :: "event \<Rightarrow> world \<Rightarrow> world" where
  "log_event e w = w\<lparr>trace := trace w @ [e]\<rparr>"

subsection \<open>Locks\<close>

definition GlobalMutex_Lock :: "unit prog" where
  "GlobalMutex_Lock w =
     (if GlobalMutex w then (Fault Blocked, w)
      else (Return (), log_event (Acquired Global) (w\<lparr>GlobalMutex := True\<rparr>)))"

definition GlobalMutex_Unlock :: "unit prog" where
  "GlobalMutex_Unlock w =
     (if GlobalMutex w
      then (Return (), log_event (Released Global) (w\<lparr>GlobalMutex := False\<rparr>))
      else (Fault (Panic ''sync: unlock of unlocked mutex''), w))"

definition set_mutex :: "nat \<Rightarrow> RWMutex \<Rightarrow> world \<Rightarrow> world" where
  "set_mutex p m w = w\<lparr>heap := (heap w)(p := (heap w p)\<lparr>mutex := m\<rparr>)\<rparr>"

definition mutex_RLock :: "ref \<Rightarrow> unit prog" where
  "mutex_RLock s w =
     (case s of
        None \<Rightarrow> (Fault NilDereference, w)
      | Some p \<Rightarrow>
          (let m = mutex (heap w p) in
           if writer m then (Fault Blocked, w)
           else (Return (),
                 log_event (Acquired (Shared p))
                   (set_mutex p (m\<lparr>readers := readers m + 1\<rparr>) w))))"

definition mutex_RUnlock :: "ref \<Rightarrow> unit prog" where
  "mutex_RUnlock s w =
     (case s of
        None \<Rightarrow> (Fault NilDereference, w)
      | Some p \<Rightarrow>
          (let m = mutex (heap w p) in
           if readers m = 0
           then (Fault (Panic ''sync: RUnlock of unlocked RWMutex''), w)
           else (Return (),
                 log_event (Released (Shared p))
                   (set_mutex p (m\<lparr>readers := readers m - 1\<rparr>) w))))"

definition mutex_Lock :: "ref \<Rightarrow> unit prog" where
  "mutex_Lock s w =
     (case s of
        None \<Rightarrow> (Fault NilDereference, w)
      | Some p \<Rightarrow>
          (let m = mutex (heap w p) in
           if writer m then (Fault Blocked, w)
           else if 0 < readers m then (Fault Blocked, w)
           else (Return (),
                 log_event (Acquired (Exclusive p))
                   (set_mutex p (m\<lparr>writer := True\<rparr>) w))))"

definition mutex_Unlock :: "ref \<Rightarrow> unit prog" where
  "mutex_Unlock s w =
     (case s of
        None \<Rightarrow> (Fault NilDereference, w)
      | Some p \<Rightarrow>
          (let m = mutex (heap w p) in
           if writer m
           then (Return (),
                 log_event (Released (Exclusive p))
                   (set_mutex p (m\<lparr>writer := False\<rparr>) w))
           else (Fault (Panic ''sync: Unlock of unlocked RWMutex''), w)))"

text \<open>Reading the field \<open>cSurface\<close> through a \<open>*Surface\<close>.\<close>

definition get_cSurface :: "ref \<Rightarrow> addr prog" where
  "get_cSurface s w =
     (case s of
        None \<Rightarrow> (Fault NilDereference, w)
      | Some p \<Rightarrow> (Return (cSurface (heap w p)), w))"

text \<open>
  A native call: the foreign library computes a result from the foreign memory and may
  change that memory.  The event records the surface pointers the call was given.
\<close>

definition native :: "string \<Rightarrow> addr list \<Rightarrow> ((addr \<Rightarrow> SDL_Surface) \<Rightarrow> 'a \<times> (addr \<Rightarrow> SDL_Surface)) \<Rightarrow> 'a prog" where
  "native name ptrs f w =
     (case f (foreign w) of
        (r, m) \<Rightarrow> (Return r, log_event (Native name ptrs) (w\<lparr>foreign := m\<rparr>)))"

section \<open>Surface: wrap, SetCSurface, reload, destroy\<close>

definition reload :: "ref \<Rightarrow> unit prog" where
  "reload s w =
     (case s of
        None \<Rightarrow> (Fault NilDereference, w)
      | Some p \<Rightarrow>
          (let S = heap w p in
           if cSurface S = 0 then (Fault NilDereference, w)
           else
             (let c = foreign w (cSurface S) in
              (Return (),
               w\<lparr>heap := (heap w)(p := S\<lparr>Flags := c_flags c, Format := c_format c,
                    Surface.W := c_w c, Surface.H := c_h c, Pitch := c_pitch c,
                    Pixels := c_pixels c, Offset := c_offset c\<rparr>)\<rparr>))))"

definition SetCSurface :: "ref \<Rightarrow> addr \<Rightarrow> unit prog" where
  "SetCSurface s c w =
     (case s of
        None \<Rightarrow> (Fault NilDereference, w)
      | Some p \<Rightarrow>
          reload s (w\<lparr>heap := (heap w)(p := (heap w p)\<lparr>cSurface := c\<rparr>)\<rparr>))"

definition new_Surface :: "ref prog" where
  "new_Surface w =
     (Return (Some (allocated w)),
      w\<lparr>heap := (heap w)(allocated w := zero_Surface), allocated := Suc (allocated w)\<rparr>)"

definition wrap :: "addr \<Rightarrow> ref prog" where
  "wrap c =
     (if c = 0 then return_prog None
      else bind_prog new_Surface (\<lambda>s.
           bind_prog (SetCSurface s c) (\<lambda>_.
           return_prog s)))"

definition destroy :: "ref \<Rightarrow> unit prog" where
  "destroy s w =
     (case s of
        None \<Rightarrow> (Fault NilDereference, w)
      | Some p \<Rightarrow>
          (Return (),
           w\<lparr>heap := (heap w)(p := (heap w p)\<lparr>cSurface := 0, Format := 0,
                Pixels := 0, gcPixels := None\<rparr>)\<rparr>))"

section \<open>The foreign library\<close>

text \<open>
  The native functions are parameters of the model: each takes the arguments the
  binding passes and the foreign memory, and gives its result and the foreign memory
  after the call.  \<open>*Rect\<close> arguments are passed on as addresses.
\<close>

type_synonym cmem = "addr \<Rightarrow> SDL_Surface"

record SDL_lib =
  SDL_SetVideoMode :: "32 word \<Rightarrow> 32 word \<Rightarrow> 32 word \<Rightarrow> 32 word \<Rightarrow> cmem \<Rightarrow> addr \<times> cmem"
  SDL_FreeSurface :: "addr \<Rightarrow> cmem \<Rightarrow> unit \<times> cmem"
  SDL_LockSurface :: "addr \<Rightarrow> cmem \<Rightarrow> 32 word \<times> cmem"
  SDL_UnlockSurface :: "addr \<Rightarrow> cmem \<Rightarrow> unit \<times> cmem"
  SDL_UpperBlit :: "addr \<Rightarrow> addr \<Rightarrow> addr \<Rightarrow> addr \<Rightarrow> cmem \<Rightarrow> 32 word \<times> cmem"
  SDL_FillRect :: "addr \<Rightarrow> addr \<Rightarrow> 32 word \<Rightarrow> cmem \<Rightarrow> 32 word \<times> cmem"
  IMG_Load :: "string \<Rightarrow> cmem \<Rightarrow> addr \<times> cmem"
  SDL_CreateRGBSurface :: "32 word \<Rightarrow> 32 word \<Rightarrow> 32 word \<Rightarrow> 32 word \<Rightarrow>
     32 word \<Rightarrow> 32 word \<Rightarrow> 32 word \<Rightarrow> 32 word \<Rightarrow> cmem \<Rightarrow> addr \<times> cmem"
  SDL_CreateRGBSurfaceFrom :: "addr \<Rightarrow> 32 word \<Rightarrow> 32 word \<Rightarrow> 32 word \<Rightarrow> 32 word \<Rightarrow>
     32 word \<Rightarrow> 32 word \<Rightarrow> 32 word \<Rightarrow> 32 word \<Rightarrow> cmem \<Rightarrow> addr \<times> cmem"
  SDL_DisplayFormat :: "addr \<Rightarrow> cmem \<Rightarrow> addr \<times> cmem"
  SDL_ListModes :: "addr \<Rightarrow> 32 word \<Rightarrow> addr"

section \<open>Video\<close>

definition get_currentVideoSurface :: "ref prog" where
  "get_currentVideoSurface w = (Return (currentVideoSurface w), w)"

definition set_currentVideoSurface :: "ref \<Rightarrow> unit prog" where
  "set_currentVideoSurface s w = (Return (), w\<lparr>currentVideoSurface := s\<rparr>)"

definition SetVideoMode :: "SDL_lib \<Rightarrow> 64 word \<Rightarrow> 64 word \<Rightarrow> 64 word \<Rightarrow> 32 word \<Rightarrow> ref prog" where
  "SetVideoMode L w h bpp flags =
     bind_prog GlobalMutex_Lock (\<lambda>_.
     bind_prog (native ''SDL_SetVideoMode'' []
                  (SDL_SetVideoMode L (ucast w) (ucast h) (ucast bpp) flags)) (\<lambda>screen.
     bind_prog (wrap screen) (\<lambda>s.
     bind_prog (set_currentVideoSurface s) (\<lambda>_.
     bind_prog GlobalMutex_Unlock (\<lambda>_.
     get_currentVideoSurface)))))"

definition GetVideoSurface :: "ref prog" where
  "GetVideoSurface =
     bind_prog GlobalMutex_Lock (\<lambda>_.
     bind_prog get_currentVideoSurface (\<lambda>surface.
     bind_prog GlobalMutex_Unlock (\<lambda>_.
     return_prog surface)))"

definition Free :: "SDL_lib \<Rightarrow> ref \<Rightarrow> unit prog" where
  "Free L screen =
     bind_prog GlobalMutex_Lock (\<lambda>_.
     bind_prog (mutex_Lock screen) (\<lambda>_.
     bind_prog (get_cSurface screen) (\<lambda>c.
     bind_prog (native ''SDL_FreeSurface'' [c] (SDL_FreeSurface L c)) (\<lambda>_.
     bind_prog (destroy screen) (\<lambda>_.
     bind_prog get_currentVideoSurface (\<lambda>cur.
     bind_prog (if screen = cur then set_currentVideoSurface None else return_prog ()) (\<lambda>_.
     bind_prog (mutex_Unlock screen) (\<lambda>_.
     GlobalMutex_Unlock))))))))"

definition Lock :: "SDL_lib \<Rightarrow> ref \<Rightarrow> 64 word prog" where
  "Lock L screen =
     bind_prog (mutex_Lock screen) (\<lambda>_.
     bind_prog (get_cSurface screen) (\<lambda>c.
     bind_prog (native ''SDL_LockSurface'' [c] (SDL_LockSurface L c)) (\<lambda>status.
     bind_prog (mutex_Unlock screen) (\<lambda>_.
     return_prog (scast status)))))"

definition Unlock :: "SDL_lib \<Rightarrow> ref \<Rightarrow> unit prog" where
  "Unlock L screen =
     bind_prog (mutex_Lock screen) (\<lambda>_.
     bind_prog (get_cSurface screen) (\<lambda>c.
     bind_prog (native ''SDL_UnlockSurface'' [c] (SDL_UnlockSurface L c)) (\<lambda>_.
     mutex_Unlock screen)))"

definition Blit :: "SDL_lib \<Rightarrow> ref \<Rightarrow> addr \<Rightarrow> ref \<Rightarrow> addr \<Rightarrow> 64 word prog" where
  "Blit L dst dstrect src srcrect =
     bind_prog GlobalMutex_Lock (\<lambda>_.
     bind_prog get_currentVideoSurface (\<lambda>cur.
     bind_prog (if src \<noteq> cur \<and> dst \<noteq> cur
                then bind_prog GlobalMutex_Unlock (\<lambda>_. return_prog False)
                else return_prog True) (\<lambda>global.
     bind_prog (mutex_RLock src) (\<lambda>_.
     bind_prog (mutex_Lock dst) (\<lambda>_.
     bind_prog (get_cSurface src) (\<lambda>sc.
     bind_prog (get_cSurface dst) (\<lambda>dc.
     bind_prog (native ''SDL_UpperBlit'' [sc, dc] (SDL_UpperBlit L sc srcrect dc dstrect)) (\<lambda>ret.
     bind_prog (mutex_Unlock dst) (\<lambda>_.
     bind_prog (mutex_RUnlock src) (\<lambda>_.
     bind_prog (if global then GlobalMutex_Unlock else return_prog ()) (\<lambda>_.
     return_prog (scast ret))))))))))))"

definition BlitSurface :: "SDL_lib \<Rightarrow> ref \<Rightarrow> addr \<Rightarrow> ref \<Rightarrow> addr \<Rightarrow> 64 word prog" where
  "BlitSurface L src srcrect dst dstrect = Blit L dst dstrect src srcrect"

definition FillRect :: "SDL_lib \<Rightarrow> ref \<Rightarrow> addr \<Rightarrow> 32 word \<Rightarrow> 64 word prog" where
  "FillRect L dst dstrect color =
     bind_prog (mutex_Lock dst) (\<lambda>_.
     bind_prog (get_cSurface dst) (\<lambda>c.
     bind_prog (native ''SDL_FillRect'' [c] (SDL_FillRect L c dstrect color)) (\<lambda>ret.
     bind_prog (mutex_Unlock dst) (\<lambda>_.
     return_prog (scast ret)))))"

section \<open>Surface factories\<close>

definition Load :: "SDL_lib \<Rightarrow> string \<Rightarrow> ref prog" where
  "Load L file =
     bind_prog GlobalMutex_Lock (\<lambda>_.
     bind_prog (native ''IMG_Load'' [] (IMG_Load L file)) (\<lambda>screen.
     bind_prog GlobalMutex_Unlock (\<lambda>_.
     wrap screen)))"

definition CreateRGBSurface :: "SDL_lib \<Rightarrow> 32 word \<Rightarrow> 64 word \<Rightarrow> 64 word \<Rightarrow> 64 word \<Rightarrow>
    32 word \<Rightarrow> 32 word \<Rightarrow> 32 word \<Rightarrow> 32 word \<Rightarrow> ref prog" where
  "CreateRGBSurface L flags width height bpp Rmask Gmask Bmask Amask =
     bind_prog GlobalMutex_Lock (\<lambda>_.
     bind_prog (native ''SDL_CreateRGBSurface'' []
                  (SDL_CreateRGBSurface L flags (ucast width) (ucast height) (ucast bpp)
                     Rmask Gmask Bmask Amask)) (\<lambda>p.
     bind_prog GlobalMutex_Unlock (\<lambda>_.
     wrap p)))"

definition set_gcPixels :: "ref \<Rightarrow> interface \<Rightarrow> unit prog" where
  "set_gcPixels s v w =
     (case s of
        None \<Rightarrow> (Fault NilDereference, w)
      | Some p \<Rightarrow> (Return (), w\<lparr>heap := (heap w)(p := (heap w p)\<lparr>gcPixels := v\<rparr>)\<rparr>))"

definition panic :: "string \<Rightarrow> 'a prog" where
  "panic msg w = (Fault (Panic msg), w)"

definition CreateRGBSurfaceFrom :: "SDL_lib \<Rightarrow> interface \<Rightarrow> 64 word \<Rightarrow> 64 word \<Rightarrow> 64 word \<Rightarrow>
    64 word \<Rightarrow> 32 word \<Rightarrow> 32 word \<Rightarrow> 32 word \<Rightarrow> 32 word \<Rightarrow> ref prog" where
  "CreateRGBSurfaceFrom L pixels width height bpp pitch Rmask Gmask Bmask Amask =
     (if Kind_of pixels = Ptr \<or> Kind_of pixels = UnsafePointer \<or> Kind_of pixels = Slice
      then
        bind_prog GlobalMutex_Lock (\<lambda>_.
        bind_prog (native ''SDL_CreateRGBSurfaceFrom'' []
                     (SDL_CreateRGBSurfaceFrom L (Pointer_of pixels) (ucast width)
                        (ucast height) (ucast bpp) (ucast pitch) Rmask Gmask Bmask Amask)) (\<lambda>p.
        bind_prog GlobalMutex_Unlock (\<lambda>_.
        bind_prog (wrap p) (\<lambda>s.
        bind_prog (set_gcPixels s pixels) (\<lambda>_.
        return_prog s)))))
      else panic (''Don't know how to handle type: '' @ Kind_String (Kind_of pixels)))"

definition DisplayFormat :: "SDL_lib \<Rightarrow> ref \<Rightarrow> ref prog" where
  "DisplayFormat L s =
     bind_prog (mutex_RLock s) (\<lambda>_.
     bind_prog (get_cSurface s) (\<lambda>c.
     bind_prog (native ''SDL_DisplayFormat'' [c] (SDL_DisplayFormat L c)) (\<lambda>p.
     bind_prog (mutex_RUnlock s) (\<lambda>_.
     wrap p))))"

section \<open>ListModes\<close>

text \<open>
  A Go slice is nil or has a backing sequence; the empty non-nil slice
  \<open>make([]Rect, 0)\<close> and the nil slice are different values.
\<close>

datatype 'a slice = NilSlice | SliceOf "'a list"

text \<open>
  The foreign memory that \<open>ListModes\<close> reads: pointer-sized loads and \<open>SDL_Rect\<close>
  structs.  Pointers are 8 bytes wide (\<open>unsafe.Sizeof(ptr)\<close>).
\<close>

record array_memory =
  load_pointer :: "addr \<Rightarrow> addr"
  load_rect :: "addr \<Rightarrow> SDL_Rect"

definition zero_Rect :: Rect where
  "zero_Rect = \<lparr>X = 0, Y = 0, Rect.W = 0, Rect.H = 0\<rparr>"

text \<open>
  The counting loop \<open>for ptr != nil { count++; ptr = modes[count] }\<close>.  It does not
  return when the array has no null entry.
\<close>

partial_function (option) count_modes :: "(addr \<Rightarrow> addr) \<Rightarrow> addr \<Rightarrow> 64 word \<Rightarrow> addr \<Rightarrow> 64 word option" where
  "count_modes ld modes count ptr =
     (if ptr = 0 then Some count
      else count_modes ld modes (count + 1) (ld (modes + (count + 1) * 8)))"

text \<open>The copying loop \<open>for i := 0; i < count; i++ { ... ret[i] = ... }\<close>.\<close>

function fill_modes :: "array_memory \<Rightarrow> addr \<Rightarrow> nat \<Rightarrow> nat \<Rightarrow> Rect list \<Rightarrow> fault + Rect list" where
  "fill_modes M modes i count ret =
     (if i < count
      then
        (let r = load_pointer M (modes + of_nat i * 8) in
         if r = 0 then Inl NilDereference
         else
           (let c = load_rect M r in
            fill_modes M modes (Suc i) count
              (ret[i := \<lparr>X = rect_x c, Y = rect_y c, Rect.W = rect_w c, Rect.H = rect_h c\<rparr>])))
      else Inr ret)"
  by pat_completeness auto
termination
  by (relation "measure (\<lambda>(M, modes, i, count, ret). count - i)") auto

definition ListModes :: "SDL_lib \<Rightarrow> array_memory \<Rightarrow> addr \<Rightarrow> 32 word \<Rightarrow> Rect slice outcome option" where
  "ListModes L M format flags =
     (let modes = SDL_ListModes L format flags in
      if modes = 0 then Some (Return (SliceOf []))
      else if modes + 1 = 0 then Some (Return NilSlice)
      else
        (case count_modes (load_pointer M) modes 0 (load_pointer M modes) of
           None \<Rightarrow> None
         | Some count \<Rightarrow>
             Some (if sint count < 0 then Fault (Panic ''makeslice: len out of range'')
                   else
                     (case fill_modes M modes 0 (unat count) (replicate (unat count) zero_Rect) of
                        Inl f \<Rightarrow> Fault f
                      | Inr ret \<Rightarrow> Return (SliceOf ret)))))"

section \<open>Observations on traces\<close>

fun is_Native :: "event \<Rightarrow> bool" where
  "is_Native (Native name ptrs) = True"
| "is_Native (Acquired l) = False"
| "is_Native (Released l) = False"

definition native_calls :: "world \<Rightarrow> event list" where
  "native_calls w = filter is_Native (trace w)"

text \<open>
  The locking protocol of a blit as the specification words it: no global lock unless a
  participant is the active display; destination exclusive first, then source shared;
  release in reverse order; the global lock outermost.
\<close>

definition spec_Blit_events :: "bool \<Rightarrow> nat \<Rightarrow> nat \<Rightarrow> event \<Rightarrow> event list" where
  "spec_Blit_events on_display d s call =
     (if on_display
      then [Acquired Global, Acquired (Exclusive d), Acquired (Shared s), call,
            Released (Shared s), Released (Exclusive d), Released Global]
      else [Acquired (Exclusive d), Acquired (Shared s), call,
            Released (Shared s), Released (Exclusive d)])"

text \<open>The events of a blit as \<open>Surface.Blit\<close> produces them.\<close>

definition Blit_events :: "bool \<Rightarrow> nat \<Rightarrow> nat \<Rightarrow> event \<Rightarrow> event list" where
  "Blit_events on_display d s call =
     (if on_display
      then [Acquired Global, Acquired (Shared s), Acquired (Exclusive d), call,
            Released (Exclusive d), Released (Shared s), Released Global]
      else [Acquired Global, Released Global, Acquired (Shared s), Acquired (Exclusive d),
            call, Released (Exclusive d), Released (Shared s)])"

section \<open>A concrete library and world\<close>

definition ex_csurface :: SDL_Surface where
  "ex_csurface = \<lparr>c_flags = 1, c_format = 0x500, c_w = 640, c_h = 480, c_pitch = 2560,
     c_pixels = 0x8000, c_offset = 0\<rparr>"

definition ex_lib :: SDL_lib where
  "ex_lib = \<lparr>
     SDL_SetVideoMode = (\<lambda>w h bpp flags m. (0x3000, m)),
     SDL_FreeSurface = (\<lambda>c m. ((), m)),
     SDL_LockSurface = (\<lambda>c m. (if c = 0 then - 1 else 0, m)),
     SDL_UnlockSurface = (\<lambda>c m. ((), m)),
     SDL_UpperBlit = (\<lambda>s sr d dr m. (0, m)),
     SDL_FillRect = (\<lambda>c r color m. (if c = 0 then - 1 else 0, m)),
     IMG_Load = (\<lambda>file m. (0, m)),
     SDL_CreateRGBSurface = (\<lambda>flags w h bpp rm gm bm am m. (0, m)),
     SDL_CreateRGBSurfaceFrom = (\<lambda>ptr w h bpp pitch rm gm bm am m. (0, m)),
     SDL_DisplayFormat = (\<lambda>c m. (0, m)),
     SDL_ListModes = (\<lambda>format flags. 0)\<rparr>"

definition ex_surface :: "addr \<Rightarrow> Surface" where
  "ex_surface c = \<lparr>cSurface = c, mutex = \<lparr>readers = 0, writer = False\<rparr>,
     Flags = 1, Format = 0x500, Surface.W = 640, Surface.H = 480, Pitch = 2560,
     Pixels = 0x8000, Offset = 0, gcPixels = Some \<lparr>kind = Slice, pointer = 0x8000\<rparr>\<rparr>"

definition ex_world :: world where
  "ex_world = \<lparr>
     heap = (\<lambda>p. if p = 0 then ex_surface 0x1000
                else if p = 1 then ex_surface 0x2000 else zero_Surface),
     allocated = 2,
     currentVideoSurface = None,
     GlobalMutex = False,
     foreign = (\<lambda>a. ex_csurface),
     trace = []\<rparr>"

definition ex_display :: world where
  "ex_display = ex_world\<lparr>currentVideoSurface := Some 0\<rparr>"

text \<open>A mode array at \<open>0x1000\<close>: two entries and the null terminator.\<close>

definition ex_modes :: array_memory where
  "ex_modes = \<lparr>
     load_pointer = (\<lambda>a. if a = 0x1000 then 0x2000 else if a = 0x1008 then 0x2008 else 0),
     load_rect = (\<lambda>a. if a = 0x2000
                       then \<lparr>rect_x = 0, rect_y = 0, rect_w = 1024, rect_h = 768\<rparr>
                       else \<lparr>rect_x = 0, rect_y = 0, rect_w = 640, rect_h = 480\<rparr>)\<rparr>"

definition entry_at :: "array_memory \<Rightarrow> addr \<Rightarrow> nat \<Rightarrow> Rect" where
  "entry_at M modes i =
     (let c = load_rect M (load_pointer M (modes + of_nat i * 8)) in
      \<lparr>X = rect_x c, Y = rect_y c, Rect.W = rect_w c, Rect.H = rect_h c\<rparr>)"

section \<open>Proof tools\<close>

declare fill_modes.simps [simp del]

lemmas prog_defs = bind_prog_def return_prog_def log_event_def set_mutex_def
  GlobalMutex_Lock_def GlobalMutex_Unlock_def mutex_Lock_def mutex_Unlock_def
  mutex_RLock_def mutex_RUnlock_def get_cSurface_def native_def
  get_currentVideoSurface_def set_currentVideoSurface_def

section \<open>Blit: the locking protocol\<close>

text \<open>
  Claim C1 (as the code has it).  For a blit between two distinct surfaces whose locks
  are free, \<open>Surface.Blit\<close> first takes the global lock to read the active-display
  slot.  If neither surface is the occupant it releases the global lock at once, before
  any per-handle lock and before the native call; if one of them is the occupant it
  keeps the global lock until both per-handle locks are released.  The per-handle locks
  are always taken source-shared first, then destination-exclusive, and released in
  reverse order.  The call returns the native status and leaves every lock as it found
  it.
\<close>

theorem Blit_locking_protocol:
  assumes "s \<noteq> d" and "\<not> GlobalMutex w"
    and "\<not> writer (mutex (heap w s))"
    and "\<not> writer (mutex (heap w d))" and "readers (mutex (heap w d)) = 0"
  shows "fst (Blit L (Some d) dstrect (Some s) srcrect w) =
      Return (scast (fst (SDL_UpperBlit L (cSurface (heap w s)) srcrect
                            (cSurface (heap w d)) dstrect (foreign w)))) \<and>
    trace (snd (Blit L (Some d) dstrect (Some s) srcrect w)) =
      trace w @ Blit_events (currentVideoSurface w = Some s \<or> currentVideoSurface w = Some d)
                  d s (Native ''SDL_UpperBlit'' [cSurface (heap w s), cSurface (heap w d)]) \<and>
    GlobalMutex (snd (Blit L (Some d) dstrect (Some s) srcrect w)) = False \<and>
    mutex (heap (snd (Blit L (Some d) dstrect (Some s) srcrect w)) s) = mutex (heap w s) \<and>
    mutex (heap (snd (Blit L (Some d) dstrect (Some s) srcrect w)) d) = mutex (heap w d)"
proof -
  consider "currentVideoSurface w = Some s" | "currentVideoSurface w = Some d"
    | "currentVideoSurface w \<noteq> Some s" "currentVideoSurface w \<noteq> Some d"
    by blast
  then show ?thesis
  proof cases
    case 1
    with assms show ?thesis
      by (simp add: Blit_def Blit_events_def prog_defs case_prod_beta Let_def)
  next
    case 2
    with assms show ?thesis
      by (simp add: Blit_def Blit_events_def prog_defs case_prod_beta Let_def)
  next
    case 3
    then have "Some s \<noteq> currentVideoSurface w" "Some d \<noteq> currentVideoSurface w"
      by auto
    with 3 assms show ?thesis
      by (simp add: Blit_def Blit_events_def prog_defs case_prod_beta Let_def)
  qed
qed

theorem Blit_locking_protocol_witness:
  "(0::nat) \<noteq> 1 \<and> \<not> GlobalMutex ex_display \<and>
   \<not> writer (mutex (heap ex_display 0)) \<and>
   \<not> writer (mutex (heap ex_display 1)) \<and> readers (mutex (heap ex_display 1)) = 0 \<and>
   trace (snd (Blit ex_lib (Some 1) 0 (Some 0) 0 ex_display)) =
     [Acquired Global, Acquired (Shared 0), Acquired (Exclusive 1),
      Native ''SDL_UpperBlit'' [0x1000, 0x2000], Released (Exclusive 1), Released (Shared 0),
      Released Global]"
  using Blit_locking_protocol [of 0 1 ex_display ex_lib 0 0]
  by (simp add: Blit_events_def ex_display_def ex_world_def ex_surface_def)

text \<open>
  The claim as the specification words it (no global lock without the display;
  destination first) fails on two plain surfaces, and the order fails on the display
  too.
\<close>

theorem Blit_follows_spec_order_counterexample:
  "trace (snd (Blit ex_lib (Some 1) 0 (Some 0) 0 ex_world)) =
     [Acquired Global, Released Global, Acquired (Shared 0), Acquired (Exclusive 1),
      Native ''SDL_UpperBlit'' [0x1000, 0x2000], Released (Exclusive 1), Released (Shared 0)] \<and>
   trace (snd (Blit ex_lib (Some 1) 0 (Some 0) 0 ex_world)) \<noteq>
     spec_Blit_events False 1 0 (Native ''SDL_UpperBlit'' [0x1000, 0x2000]) \<and>
   trace (snd (Blit ex_lib (Some 1) 0 (Some 0) 0 ex_display)) \<noteq>
     spec_Blit_events True 1 0 (Native ''SDL_UpperBlit'' [0x1000, 0x2000])"
  by (simp add: Blit_def spec_Blit_events_def prog_defs case_prod_beta Let_def
      ex_display_def ex_world_def ex_lib_def ex_surface_def)

text \<open>
  A blit of a surface onto itself takes the shared lock and then blocks on the
  exclusive lock of the same mutex.
\<close>

lemma Blit_same_surface_blocks:
  assumes "\<not> GlobalMutex w" and "\<not> writer (mutex (heap w s))"
  shows "fst (Blit L (Some s) dstrect (Some s) srcrect w) = Fault Blocked"
proof (cases "currentVideoSurface w = Some s")
  case True
  with assms show ?thesis
    by (simp add: Blit_def prog_defs case_prod_beta Let_def)
next
  case False
  then have "Some s \<noteq> currentVideoSurface w" by auto
  with False assms show ?thesis
    by (simp add: Blit_def prog_defs case_prod_beta Let_def)
qed

section \<open>destroy and Free\<close>

text \<open>
  Claim C2 (as the code has it).  \<open>destroy\<close> sets the foreign pointer, \<open>Format\<close> and
  \<open>Pixels\<close> to null and drops the retained pixel buffer; it leaves \<open>Flags\<close>, \<open>W\<close>,
  \<open>H\<close>, \<open>Pitch\<close> and \<open>Offset\<close> as they were and does not touch the
  active-display slot.  \<open>Free\<close>, which calls \<open>destroy\<close>, clears the slot when the
  freed surface is its occupant.
\<close>

theorem destroy_and_Free_fields:
  "fst (destroy (Some p) w) = Return () \<and>
   cSurface (heap (snd (destroy (Some p) w)) p) = 0 \<and>
   Format (heap (snd (destroy (Some p) w)) p) = 0 \<and>
   Pixels (heap (snd (destroy (Some p) w)) p) = 0 \<and>
   gcPixels (heap (snd (destroy (Some p) w)) p) = None \<and>
   Flags (heap (snd (destroy (Some p) w)) p) = Flags (heap w p) \<and>
   Surface.W (heap (snd (destroy (Some p) w)) p) = Surface.W (heap w p) \<and>
   Surface.H (heap (snd (destroy (Some p) w)) p) = Surface.H (heap w p) \<and>
   Pitch (heap (snd (destroy (Some p) w)) p) = Pitch (heap w p) \<and>
   Offset (heap (snd (destroy (Some p) w)) p) = Offset (heap w p) \<and>
   currentVideoSurface (snd (destroy (Some p) w)) = currentVideoSurface w \<and>
   (\<not> GlobalMutex w \<and> \<not> writer (mutex (heap w p)) \<and> readers (mutex (heap w p)) = 0 \<longrightarrow>
      fst (Free L (Some p) w) = Return () \<and>
      cSurface (heap (snd (Free L (Some p) w)) p) = 0 \<and>
      Format (heap (snd (Free L (Some p) w)) p) = 0 \<and>
      Pixels (heap (snd (Free L (Some p) w)) p) = 0 \<and>
      gcPixels (heap (snd (Free L (Some p) w)) p) = None \<and>
      currentVideoSurface (snd (Free L (Some p) w)) =
        (if currentVideoSurface w = Some p then None else currentVideoSurface w))"
  by (cases "currentVideoSurface w = Some p")
    (simp_all add: destroy_def Free_def prog_defs case_prod_beta)

theorem destroy_and_Free_fields_witness:
  "\<not> GlobalMutex ex_display \<and> \<not> writer (mutex (heap ex_display 0)) \<and>
   readers (mutex (heap ex_display 0)) = 0 \<and>
   currentVideoSurface ex_display = Some 0 \<and>
   fst (Free ex_lib (Some 0) ex_display) = Return () \<and>
   cSurface (heap (snd (Free ex_lib (Some 0) ex_display)) 0) = 0 \<and>
   currentVideoSurface (snd (Free ex_lib (Some 0) ex_display)) = None"
  using destroy_and_Free_fields [of 0 ex_display ex_lib]
  by (simp add: ex_display_def ex_world_def ex_surface_def)

text \<open>
  After \<open>destroy\<close> on the display surface, width and flags are still set and the slot
  still holds the surface.
\<close>

theorem destroy_zeroes_everything_counterexample:
  "Surface.W (heap (snd (destroy (Some 0) ex_display)) 0) = 640 \<and>
   Flags (heap (snd (destroy (Some 0) ex_display)) 0) = 1 \<and>
   currentVideoSurface ex_display = Some 0 \<and>
   currentVideoSurface (snd (destroy (Some 0) ex_display)) = Some 0"
  by (simp add: destroy_def ex_display_def ex_world_def ex_surface_def)

text \<open>
  Claim C9.  \<open>destroy\<close> on a handle never faults, and a second \<open>destroy\<close> on the
  same handle returns normally and leaves the whole state as the first one left it.
\<close>

theorem destroy_idempotent:
  "fst (destroy (Some p) w) = Return () \<and>
   destroy (Some p) (snd (destroy (Some p) w)) = (Return (), snd (destroy (Some p) w))"
  by (simp add: destroy_def)

section \<open>Operations on nil and destroyed handles\<close>

text \<open>
  Claim C3 (as the code has it).  On a nil handle \<open>FillRect\<close>, \<open>Lock\<close> and \<open>Blit\<close>
  stop with a nil-pointer panic before any native call.  On a destroyed handle (a
  non-nil handle whose foreign pointer is null) \<open>FillRect\<close> and \<open>Lock\<close> do not fail:
  they take the handle's lock, pass the null pointer to the native function and return
  its status.
\<close>

theorem null_handle_operations:
  "FillRect L None dstrect color w = (Fault NilDereference, w) \<and>
   Lock L None w = (Fault NilDereference, w) \<and>
   (\<not> GlobalMutex w \<longrightarrow>
      fst (Blit L dst dstrect None srcrect w) = Fault NilDereference \<and>
      native_calls (snd (Blit L dst dstrect None srcrect w)) = native_calls w) \<and>
   (\<not> GlobalMutex w \<and> \<not> writer (mutex (heap w s)) \<longrightarrow>
      fst (Blit L None dstrect (Some s) srcrect w) = Fault NilDereference \<and>
      native_calls (snd (Blit L None dstrect (Some s) srcrect w)) = native_calls w) \<and>
   (cSurface (heap w p) = 0 \<and> \<not> writer (mutex (heap w p)) \<and> readers (mutex (heap w p)) = 0 \<longrightarrow>
      fst (FillRect L (Some p) dstrect color w) =
        Return (scast (fst (SDL_FillRect L 0 dstrect color (foreign w)))) \<and>
      trace (snd (FillRect L (Some p) dstrect color w)) =
        trace w @ [Acquired (Exclusive p), Native ''SDL_FillRect'' [0], Released (Exclusive p)] \<and>
      fst (Lock L (Some p) w) = Return (scast (fst (SDL_LockSurface L 0 (foreign w)))) \<and>
      trace (snd (Lock L (Some p) w)) =
        trace w @ [Acquired (Exclusive p), Native ''SDL_LockSurface'' [0], Released (Exclusive p)])"
  by (simp add: FillRect_def Lock_def Blit_def native_calls_def prog_defs case_prod_beta Let_def)

theorem null_handle_operations_witness:
  "\<not> GlobalMutex ex_world \<and> \<not> writer (mutex (heap ex_world 0)) \<and>
   fst (Blit ex_lib (Some 1) 0 None 0 ex_world) = Fault NilDereference \<and>
   fst (Blit ex_lib None 0 (Some 0) 0 ex_world) = Fault NilDereference \<and>
   native_calls (snd (Blit ex_lib None 0 (Some 0) 0 ex_world)) = [] \<and>
   cSurface (heap (snd (destroy (Some 0) ex_world)) 0) = 0 \<and>
   \<not> writer (mutex (heap (snd (destroy (Some 0) ex_world)) 0)) \<and>
   readers (mutex (heap (snd (destroy (Some 0) ex_world)) 0)) = 0 \<and>
   fst (Lock ex_lib (Some 0) (snd (destroy (Some 0) ex_world))) = Return (- 1) \<and>
   trace (snd (Lock ex_lib (Some 0) (snd (destroy (Some 0) ex_world)))) =
     [Acquired (Exclusive 0), Native ''SDL_LockSurface'' [0], Released (Exclusive 0)]"
  using null_handle_operations [of ex_lib 0 0 ex_world "Some 1" 0 0 0]
    null_handle_operations [of ex_lib 0 0 "snd (destroy (Some 0) ex_world)" "Some 1" 0 0 0]
  by (simp add: destroy_def native_calls_def ex_world_def ex_lib_def ex_surface_def)

text \<open>
  \<open>FillRect\<close> on a destroyed surface calls \<open>SDL_FillRect\<close> with the null pointer and
  returns what it returns.
\<close>

theorem destroyed_handle_fails_counterexample:
  "cSurface (heap (snd (destroy (Some 0) ex_world)) 0) = 0 \<and>
   FillRect ex_lib (Some 0) 0 255 (snd (destroy (Some 0) ex_world)) =
     (Return (- 1),
      snd (destroy (Some 0) ex_world)
        \<lparr>trace := [Acquired (Exclusive 0), Native ''SDL_FillRect'' [0], Released (Exclusive 0)]\<rparr>)"
  by (simp add: FillRect_def destroy_def prog_defs case_prod_beta Let_def
      ex_world_def ex_lib_def ex_surface_def)

section \<open>ListModes\<close>

lemma count_modes_found:
  assumes "\<forall>i. k \<le> i \<and> i < N \<longrightarrow> ld (modes + of_nat i * 8) \<noteq> 0"
    and "ld (modes + of_nat N * 8) = 0" and "k \<le> N"
  shows "count_modes ld modes (of_nat k) (ld (modes + of_nat k * 8)) = Some (of_nat N)"
  using assms
proof (induction "N - k" arbitrary: k)
  case 0
  then have "k = N" by simp
  with 0 show ?case by (subst count_modes.simps) simp
next
  case (Suc n)
  then have lt: "k < N" by simp
  with Suc.prems have nz: "ld (modes + of_nat k * 8) \<noteq> 0" by simp
  have "count_modes ld modes (of_nat (Suc k)) (ld (modes + of_nat (Suc k) * 8)) = Some (of_nat N)"
    using Suc.hyps Suc.prems lt by (intro Suc.hyps(1)) auto
  with nz show ?case by (subst count_modes.simps) (simp add: algebra_simps)
qed

lemma null_terminated_bound:
  assumes "\<forall>i<N. ld ((modes::addr) + of_nat i * 8) \<noteq> (0::addr)"
    and "ld (modes + of_nat N * 8) = 0"
  shows "N < 2 ^ 61"
proof (rule ccontr)
  assume "\<not> N < 2 ^ 61"
  then obtain j where N: "N = j + 2 ^ 61" and "j < N"
    by (metis add.commute le_add_diff_inverse less_add_same_cancel1 not_less zero_less_numeral zero_less_power)
  have "(of_nat N :: addr) * 8 = of_nat j * 8"
    by (simp add: N distrib_right)
  with assms \<open>j < N\<close> show False by auto
qed

lemma fill_modes_map:
  assumes "\<forall>j<count. load_pointer M (modes + of_nat j * 8) \<noteq> 0"
    and "i \<le> count" and "length ret = count"
  shows "fill_modes M modes i count ret = Inr (take i ret @ map (entry_at M modes) [i..<count])"
  using assms
proof (induction "count - i" arbitrary: i ret)
  case 0
  then show ?case by (subst fill_modes.simps) simp
next
  case (Suc n)
  then have lt: "i < count" by simp
  with Suc.prems have nz: "load_pointer M (modes + of_nat i * 8) \<noteq> 0" by simp
  let ?e = "entry_at M modes i"
  have "fill_modes M modes (Suc i) count (ret[i := ?e]) =
      Inr (take (Suc i) (ret[i := ?e]) @ map (entry_at M modes) [Suc i..<count])"
    using Suc.hyps Suc.prems lt by (intro Suc.hyps(1)) auto
  moreover have "take (Suc i) (ret[i := ?e]) = take i ret @ [?e]"
    using lt Suc.prems by (simp add: take_Suc_conv_app_nth)
  ultimately show ?case
    using nz lt by (subst fill_modes.simps) (simp add: Let_def entry_at_def upt_conv_Cons)
qed

lemma sint_of_nat_small:
  assumes "N < 2 ^ 61"
  shows "sint (of_nat N :: 64 word) = int N"
proof -
  have "int N < 2 ^ 63"
    using assms by (simp add: order_less_trans [of _ "2 ^ 61"])
  then have "signed_take_bit 63 (int N) = int N"
    by (simp add: signed_take_bit_int_eq_self)
  then show ?thesis
    by (simp add: signed_of_nat)
qed

lemma unat_of_nat_small:
  assumes "N < 2 ^ 61"
  shows "unat (of_nat N :: 64 word) = N"
proof -
  have "N < 2 ^ 64"
    using assms by (simp add: order_less_trans [of _ "2 ^ 61"])
  then show ?thesis
    by (simp add: unat_of_nat)
qed

lemma ListModes_array:
  assumes m: "SDL_ListModes L format flags = modes"
    and nz: "modes \<noteq> 0" and ns: "modes \<noteq> - 1"
    and entries: "\<forall>i<N. load_pointer M (modes + of_nat i * 8) \<noteq> 0"
    and stop: "load_pointer M (modes + of_nat N * 8) = 0"
  shows "ListModes L M format flags = Some (Return (SliceOf (map (entry_at M modes) [0..<N])))"
proof -
  have bound: "N < 2 ^ 61"
    using entries stop by (rule null_terminated_bound)
  have "count_modes (load_pointer M) modes (of_nat 0) (load_pointer M (modes + of_nat 0 * 8)) =
      Some (of_nat N)"
    using entries stop by (intro count_modes_found) auto
  then have count: "count_modes (load_pointer M) modes 0 (load_pointer M modes) = Some (of_nat N)"
    by simp
  have fill: "fill_modes M modes 0 N (replicate N zero_Rect) =
      Inr (map (entry_at M modes) [0..<N])"
    using entries by (simp add: fill_modes_map)
  have sentinel: "modes + 1 \<noteq> 0"
    using ns by (simp add: add_eq_0_iff2)
  show ?thesis
    using nz sentinel
    by (simp add: ListModes_def m count fill sint_of_nat_small [OF bound]
        unat_of_nat_small [OF bound])
qed

text \<open>
  Claim C4.  \<open>ListModes\<close> decodes three ways: a null pointer gives the empty non-nil
  slice; the sentinel minus one gives the nil slice, which is no sequence result, the
  empty one included; a pointer to \<open>N\<close> non-null record pointers followed by a null
  pointer gives exactly the \<open>N\<close> records' x, y, w and h, in array order.
\<close>

theorem ListModes_three_way:
  "(SDL_ListModes L format flags = 0 \<longrightarrow>
      ListModes L M format flags = Some (Return (SliceOf []))) \<and>
   (SDL_ListModes L format flags = - 1 \<longrightarrow>
      ListModes L M format flags = Some (Return NilSlice) \<and>
      ListModes L M format flags \<noteq> Some (Return (SliceOf xs))) \<and>
   (SDL_ListModes L format flags \<noteq> 0 \<and> SDL_ListModes L format flags \<noteq> - 1 \<and>
    (\<forall>i<N. load_pointer M (SDL_ListModes L format flags + of_nat i * 8) \<noteq> 0) \<and>
    load_pointer M (SDL_ListModes L format flags + of_nat N * 8) = 0 \<longrightarrow>
      ListModes L M format flags =
        Some (Return (SliceOf (map (entry_at M (SDL_ListModes L format flags)) [0..<N]))))"
proof (intro conjI impI)
  assume "SDL_ListModes L format flags = 0"
  then show "ListModes L M format flags = Some (Return (SliceOf []))"
    by (simp add: ListModes_def)
next
  assume s: "SDL_ListModes L format flags = - 1"
  then show nil: "ListModes L M format flags = Some (Return NilSlice)"
    by (simp add: ListModes_def)
  then show "ListModes L M format flags \<noteq> Some (Return (SliceOf xs))"
    by simp
next
  assume "SDL_ListModes L format flags \<noteq> 0 \<and> SDL_ListModes L format flags \<noteq> - 1 \<and>
    (\<forall>i<N. load_pointer M (SDL_ListModes L format flags + of_nat i * 8) \<noteq> 0) \<and>
    load_pointer M (SDL_ListModes L format flags + of_nat N * 8) = 0"
  then show "ListModes L M format flags =
      Some (Return (SliceOf (map (entry_at M (SDL_ListModes L format flags)) [0..<N])))"
    by (intro ListModes_array) auto
qed

theorem ListModes_three_way_witness:
  "SDL_ListModes ex_lib 0 0 = 0 \<and>
   ListModes ex_lib ex_modes 0 0 = Some (Return (SliceOf [])) \<and>
   SDL_ListModes (ex_lib\<lparr>SDL_ListModes := \<lambda>format flags. - 1\<rparr>) 0 0 = - 1 \<and>
   ListModes (ex_lib\<lparr>SDL_ListModes := \<lambda>format flags. - 1\<rparr>) ex_modes 0 0 =
     Some (Return NilSlice) \<and>
   SDL_ListModes (ex_lib\<lparr>SDL_ListModes := \<lambda>format flags. 0x1000\<rparr>) 0 0 = 0x1000 \<and>
   load_pointer ex_modes 0x1000 = 0x2000 \<and> load_pointer ex_modes 0x1008 = 0x2008 \<and>
   load_pointer ex_modes 0x1010 = 0 \<and>
   ListModes (ex_lib\<lparr>SDL_ListModes := \<lambda>format flags. 0x1000\<rparr>) ex_modes 0 0 =
     Some (Return (SliceOf [\<lparr>X = 0, Y = 0, Rect.W = 1024, Rect.H = 768\<rparr>,
                            \<lparr>X = 0, Y = 0, Rect.W = 640, Rect.H = 480\<rparr>]))"
proof -
  have e: "\<forall>i<2. load_pointer ex_modes (0x1000 + of_nat i * 8) \<noteq> 0"
    by (simp add: ex_modes_def less_2_cases_iff)
  have l: "[0..<2] = [0, Suc 0]"
    by (simp add: upt_rec)
  show ?thesis
    using ListModes_three_way [of ex_lib 0 0 ex_modes "[]" 0]
      ListModes_three_way [of "ex_lib\<lparr>SDL_ListModes := \<lambda>format flags. - 1\<rparr>" 0 0 ex_modes "[]" 0]
      ListModes_three_way [of "ex_lib\<lparr>SDL_ListModes := \<lambda>format flags. 0x1000\<rparr>" 0 0 ex_modes "[]" 2]
      e
    by (simp add: ex_lib_def ex_modes_def entry_at_def l)
qed

section \<open>Factories\<close>

lemma wrap_null: "wrap 0 w = (Return None, w)"
  by (simp add: wrap_def return_prog_def)

lemma wrap_populates_shadow:
  assumes "c \<noteq> 0"
  shows "fst (wrap c w) = Return (Some (allocated w))"
    and "cSurface (heap (snd (wrap c w)) (allocated w)) = c"
    and "Flags (heap (snd (wrap c w)) (allocated w)) = c_flags (foreign w c)"
    and "Format (heap (snd (wrap c w)) (allocated w)) = c_format (foreign w c)"
    and "Surface.W (heap (snd (wrap c w)) (allocated w)) = c_w (foreign w c)"
    and "Surface.H (heap (snd (wrap c w)) (allocated w)) = c_h (foreign w c)"
    and "Pitch (heap (snd (wrap c w)) (allocated w)) = c_pitch (foreign w c)"
    and "Pixels (heap (snd (wrap c w)) (allocated w)) = c_pixels (foreign w c)"
    and "Offset (heap (snd (wrap c w)) (allocated w)) = c_offset (foreign w c)"
  using assms
  by (simp_all add: wrap_def new_Surface_def SetCSurface_def reload_def prog_defs
      case_prod_beta Let_def)

lemma factories_return_nil_on_null:
  "\<not> GlobalMutex w \<Longrightarrow> fst (IMG_Load L file (foreign w)) = 0 \<Longrightarrow>
     fst (Load L file w) = Return None"
  "\<not> GlobalMutex w \<Longrightarrow>
   fst (SDL_CreateRGBSurface L flags (ucast width) (ucast height) (ucast bpp)
          Rmask Gmask Bmask Amask (foreign w)) = 0 \<Longrightarrow>
     fst (CreateRGBSurface L flags width height bpp Rmask Gmask Bmask Amask w) = Return None"
  "\<not> writer (mutex (heap w p)) \<Longrightarrow> fst (SDL_DisplayFormat L (cSurface (heap w p)) (foreign w)) = 0 \<Longrightarrow>
     fst (DisplayFormat L (Some p) w) = Return None"
  by (simp_all add: Load_def CreateRGBSurface_def DisplayFormat_def wrap_def prog_defs
      case_prod_beta Let_def)

text \<open>
  Claim C5.  \<open>Load\<close>, \<open>CreateRGBSurface\<close> and \<open>DisplayFormat\<close> return nil when the
  native call returns null.  \<open>CreateRGBSurfaceFrom\<close> does not: it stores the pixel
  buffer through the nil result of \<open>wrap\<close> and stops with a nil-pointer panic.
\<close>

theorem CreateRGBSurfaceFrom_null_panics:
  assumes "Kind_of pixels = Ptr \<or> Kind_of pixels = UnsafePointer \<or> Kind_of pixels = Slice"
    and "\<not> GlobalMutex w"
    and "fst (SDL_CreateRGBSurfaceFrom L (Pointer_of pixels) (ucast width) (ucast height)
               (ucast bpp) (ucast pitch) Rmask Gmask Bmask Amask (foreign w)) = 0"
  shows "fst (CreateRGBSurfaceFrom L pixels width height bpp pitch Rmask Gmask Bmask Amask w) =
           Fault NilDereference"
  using assms
  by (simp add: CreateRGBSurfaceFrom_def wrap_def set_gcPixels_def prog_defs case_prod_beta)

theorem CreateRGBSurfaceFrom_null_panics_witness:
  "Kind_of (Some \<lparr>kind = Slice, pointer = 0x9000\<rparr>) = Slice \<and> \<not> GlobalMutex ex_world \<and>
   fst (SDL_CreateRGBSurfaceFrom ex_lib 0x9000 1 1 32 4 0 0 0 0 (foreign ex_world)) = 0 \<and>
   fst (CreateRGBSurfaceFrom ex_lib (Some \<lparr>kind = Slice, pointer = 0x9000\<rparr>) 1 1 32 4 0 0 0 0
          ex_world) = Fault NilDereference"
  using CreateRGBSurfaceFrom_null_panics
    [of "Some \<lparr>kind = Slice, pointer = 0x9000\<rparr>" ex_world ex_lib 1 1 32 4 0 0 0 0]
  by (simp add: Kind_of_def Pointer_of_def ex_world_def ex_lib_def)

text \<open>
  Claim C6 (as the code has it).  \<open>CreateRGBSurfaceFrom\<close> accepts exactly the kinds
  pointer, unsafe pointer and slice.  For every other kind, an array value included, it
  panics with a message that names the kind, before any lock is taken or foreign call
  made.  For an accepted kind it makes the native call under the global lock, and a
  non-null result gives a handle that retains the caller's buffer.
\<close>

theorem CreateRGBSurfaceFrom_kinds:
  "(Kind_of pixels \<noteq> Ptr \<and> Kind_of pixels \<noteq> UnsafePointer \<and> Kind_of pixels \<noteq> Slice \<longrightarrow>
      CreateRGBSurfaceFrom L pixels width height bpp pitch Rmask Gmask Bmask Amask w =
        (Fault (Panic (''Don't know how to handle type: '' @ Kind_String (Kind_of pixels))), w)) \<and>
   ((Kind_of pixels = Ptr \<or> Kind_of pixels = UnsafePointer \<or> Kind_of pixels = Slice) \<and>
    \<not> GlobalMutex w \<longrightarrow>
      trace (snd (CreateRGBSurfaceFrom L pixels width height bpp pitch Rmask Gmask Bmask Amask w)) =
        trace w @ [Acquired Global, Native ''SDL_CreateRGBSurfaceFrom'' [], Released Global]) \<and>
   ((Kind_of pixels = Ptr \<or> Kind_of pixels = UnsafePointer \<or> Kind_of pixels = Slice) \<and>
    \<not> GlobalMutex w \<and>
    fst (SDL_CreateRGBSurfaceFrom L (Pointer_of pixels) (ucast width) (ucast height)
           (ucast bpp) (ucast pitch) Rmask Gmask Bmask Amask (foreign w)) \<noteq> 0 \<longrightarrow>
      fst (CreateRGBSurfaceFrom L pixels width height bpp pitch Rmask Gmask Bmask Amask w) =
        Return (Some (allocated w)) \<and>
      cSurface (heap (snd (CreateRGBSurfaceFrom L pixels width height bpp pitch
                             Rmask Gmask Bmask Amask w)) (allocated w)) =
        fst (SDL_CreateRGBSurfaceFrom L (Pointer_of pixels) (ucast width) (ucast height)
               (ucast bpp) (ucast pitch) Rmask Gmask Bmask Amask (foreign w)) \<and>
      gcPixels (heap (snd (CreateRGBSurfaceFrom L pixels width height bpp pitch
                             Rmask Gmask Bmask Amask w)) (allocated w)) = pixels)"
  by (simp add: CreateRGBSurfaceFrom_def wrap_def new_Surface_def SetCSurface_def reload_def
      set_gcPixels_def panic_def zero_Surface_def prog_defs case_prod_beta Let_def)

theorem CreateRGBSurfaceFrom_kinds_witness:
  "Kind_of (Some \<lparr>kind = Array, pointer = 0x9000\<rparr>) \<noteq> Ptr \<and>
   Kind_of (Some \<lparr>kind = Array, pointer = 0x9000\<rparr>) \<noteq> UnsafePointer \<and>
   Kind_of (Some \<lparr>kind = Array, pointer = 0x9000\<rparr>) \<noteq> Slice \<and>
   Kind_of (Some \<lparr>kind = Slice, pointer = 0x9000\<rparr>) = Slice \<and>
   \<not> GlobalMutex ex_world \<and>
   fst (SDL_CreateRGBSurfaceFrom
          (ex_lib\<lparr>SDL_CreateRGBSurfaceFrom := \<lambda>ptr w h bpp pitch rm gm bm am m. (0x4000, m)\<rparr>)
          0x9000 1 1 32 4 0 0 0 0 (foreign ex_world)) \<noteq> 0 \<and>
   fst (CreateRGBSurfaceFrom
          (ex_lib\<lparr>SDL_CreateRGBSurfaceFrom := \<lambda>ptr w h bpp pitch rm gm bm am m. (0x4000, m)\<rparr>)
          (Some \<lparr>kind = Slice, pointer = 0x9000\<rparr>) 1 1 32 4 0 0 0 0 ex_world) =
     Return (Some 2) \<and>
   gcPixels (heap (snd (CreateRGBSurfaceFrom
          (ex_lib\<lparr>SDL_CreateRGBSurfaceFrom := \<lambda>ptr w h bpp pitch rm gm bm am m. (0x4000, m)\<rparr>)
          (Some \<lparr>kind = Slice, pointer = 0x9000\<rparr>) 1 1 32 4 0 0 0 0 ex_world)) 2) =
     Some \<lparr>kind = Slice, pointer = 0x9000\<rparr> \<and>
   trace (snd (CreateRGBSurfaceFrom
          (ex_lib\<lparr>SDL_CreateRGBSurfaceFrom := \<lambda>ptr w h bpp pitch rm gm bm am m. (0x4000, m)\<rparr>)
          (Some \<lparr>kind = Slice, pointer = 0x9000\<rparr>) 1 1 32 4 0 0 0 0 ex_world)) =
     [Acquired Global, Native ''SDL_CreateRGBSurfaceFrom'' [], Released Global]"
  using CreateRGBSurfaceFrom_kinds
    [of "Some \<lparr>kind = Slice, pointer = 0x9000\<rparr>"
        "ex_lib\<lparr>SDL_CreateRGBSurfaceFrom := \<lambda>ptr w h bpp pitch rm gm bm am m. (0x4000, m)\<rparr>"
        1 1 32 4 0 0 0 0 ex_world]
  by (simp add: Kind_of_def Pointer_of_def ex_world_def ex_lib_def)

text \<open>An array value is not accepted.\<close>

theorem CreateRGBSurfaceFrom_array_counterexample:
  "CreateRGBSurfaceFrom ex_lib (Some \<lparr>kind = Array, pointer = 0x9000\<rparr>) 1 1 32 4 0 0 0 0 ex_world =
     (Fault (Panic ''Don't know how to handle type: array''), ex_world)"
  by (simp add: CreateRGBSurfaceFrom_def Kind_of_def panic_def)

section \<open>reload\<close>

text \<open>
  Claim C7.  For a handle with a non-null foreign pointer, \<open>reload\<close> returns normally
  and afterwards each of \<open>Flags\<close>, \<open>Format\<close>, \<open>W\<close>, \<open>H\<close>, \<open>Pitch\<close>, \<open>Pixels\<close>
  and \<open>Offset\<close> equals the field of the foreign surface struct the handle points to;
  the foreign memory and the pointer are unchanged.
\<close>

theorem reload_copies_foreign_fields:
  assumes "cSurface (heap w p) \<noteq> 0"
  shows "fst (reload (Some p) w) = Return () \<and>
    foreign (snd (reload (Some p) w)) = foreign w \<and>
    cSurface (heap (snd (reload (Some p) w)) p) = cSurface (heap w p) \<and>
    Flags (heap (snd (reload (Some p) w)) p) = c_flags (foreign w (cSurface (heap w p))) \<and>
    Format (heap (snd (reload (Some p) w)) p) = c_format (foreign w (cSurface (heap w p))) \<and>
    Surface.W (heap (snd (reload (Some p) w)) p) = c_w (foreign w (cSurface (heap w p))) \<and>
    Surface.H (heap (snd (reload (Some p) w)) p) = c_h (foreign w (cSurface (heap w p))) \<and>
    Pitch (heap (snd (reload (Some p) w)) p) = c_pitch (foreign w (cSurface (heap w p))) \<and>
    Pixels (heap (snd (reload (Some p) w)) p) = c_pixels (foreign w (cSurface (heap w p))) \<and>
    Offset (heap (snd (reload (Some p) w)) p) = c_offset (foreign w (cSurface (heap w p)))"
  using assms by (simp add: reload_def Let_def)

theorem reload_copies_foreign_fields_witness:
  "cSurface (heap ex_world 0) \<noteq> 0 \<and>
   Surface.W (heap (snd (reload (Some 0) (ex_world\<lparr>foreign := (\<lambda>a. ex_csurface\<lparr>c_w := 800\<rparr>)\<rparr>))) 0) = 800"
  using reload_copies_foreign_fields [of "ex_world\<lparr>foreign := (\<lambda>a. ex_csurface\<lparr>c_w := 800\<rparr>)\<rparr>" 0]
  by (simp add: ex_world_def ex_surface_def)

section \<open>The active display\<close>

text \<open>
  Claim C8.  With the global lock free, \<open>SetVideoMode\<close> returns the handle wrapped from
  the native result (nil for a null result, a fresh handle on that pointer otherwise)
  and stores exactly that in the active-display slot, whatever the slot held; no other
  surface of the heap is changed, so a previous occupant is not destroyed; and
  \<open>GetVideoSurface\<close> right after returns the same handle and leaves the slot alone.
\<close>

theorem SetVideoMode_replaces_slot:
  assumes "\<not> GlobalMutex w"
  shows "fst (SetVideoMode L a b bpp flags w) =
      Return (if fst (SDL_SetVideoMode L (ucast a) (ucast b) (ucast bpp) flags (foreign w)) = 0
              then None else Some (allocated w)) \<and>
    currentVideoSurface (snd (SetVideoMode L a b bpp flags w)) =
      (if fst (SDL_SetVideoMode L (ucast a) (ucast b) (ucast bpp) flags (foreign w)) = 0
       then None else Some (allocated w)) \<and>
    (if fst (SDL_SetVideoMode L (ucast a) (ucast b) (ucast bpp) flags (foreign w)) = 0
     then heap (snd (SetVideoMode L a b bpp flags w)) = heap w
     else cSurface (heap (snd (SetVideoMode L a b bpp flags w)) (allocated w)) =
            fst (SDL_SetVideoMode L (ucast a) (ucast b) (ucast bpp) flags (foreign w))) \<and>
    (\<forall>q. q \<noteq> allocated w \<longrightarrow> heap (snd (SetVideoMode L a b bpp flags w)) q = heap w q) \<and>
    fst (GetVideoSurface (snd (SetVideoMode L a b bpp flags w))) =
      fst (SetVideoMode L a b bpp flags w) \<and>
    currentVideoSurface (snd (GetVideoSurface (snd (SetVideoMode L a b bpp flags w)))) =
      currentVideoSurface (snd (SetVideoMode L a b bpp flags w))"
  using assms
  by (simp add: SetVideoMode_def GetVideoSurface_def wrap_def new_Surface_def SetCSurface_def
      reload_def zero_Surface_def prog_defs case_prod_beta Let_def)

theorem SetVideoMode_replaces_slot_witness:
  "\<not> GlobalMutex ex_display \<and>
   currentVideoSurface ex_display = Some 0 \<and>
   fst (SetVideoMode ex_lib 640 480 32 0 ex_display) = Return (Some 2) \<and>
   currentVideoSurface (snd (SetVideoMode ex_lib 640 480 32 0 ex_display)) = Some 2 \<and>
   fst (GetVideoSurface (snd (SetVideoMode ex_lib 640 480 32 0 ex_display))) = Return (Some 2) \<and>
   heap (snd (SetVideoMode ex_lib 640 480 32 0 ex_display)) 0 = heap ex_display 0"
  using SetVideoMode_replaces_slot [of ex_display ex_lib 640 480 32 0]
  by (simp add: ex_display_def ex_world_def ex_lib_def)

section \<open>BlitSurface\<close>

text \<open>
  Claim C10.  \<open>BlitSurface(src, srcrect, dst, dstrect)\<close> and
  \<open>dst.Blit(dstrect, src, srcrect)\<close> give the same outcome and the same final state,
  from every state.
\<close>

theorem BlitSurface_is_Blit:
  "BlitSurface L src srcrect dst dstrect w = Blit L dst dstrect src srcrect w"
  by (simp add: BlitSurface_def)

end
